theory Spec2Isabelle
  imports Complex_Main "HOL-Library.Multiset"
begin

section \<open>Data model (models.py)\<close>

text \<open>
  The dataclasses of \<^verbatim>\<open>models.py\<close> as records, its enums as datatypes. An
  \<^verbatim>\<open>Optional\<close> field is an \<open>option\<close>. Python floats are modelled as reals
  (no rounding, no NaN or infinity), Python ints as \<open>int\<close>, \<^verbatim>\<open>str\<close> as
  \<open>string\<close>. The fields \<^verbatim>\<open>executives\<close> and \<^verbatim>\<open>last_updated\<close> of
  \<^verbatim>\<open>Company\<close> are read by none of the functions below and are left out.
  The dataclass annotates \<^verbatim>\<open>financials\<close> and \<^verbatim>\<open>tax_indicators\<close> as
  always present, but the scorer guards against a falsy value, so both are options here
  (\<open>None\<close> is Python's \<^verbatim>\<open>None\<close>).
  Renamed fields: \<^verbatim>\<open>Address.zip\<close> is \<open>zip_code\<close>, \<^verbatim>\<open>Company.id\<close> is
  \<open>id_of\<close>, \<^verbatim>\<open>CompanyReference.name\<close> and \<^verbatim>\<open>.address\<close> are
  \<open>ref_name\<close> and \<open>ref_address\<close>.
\<close>

datatype LegalStructure =
  LLC | S_CORP | C_CORP | FAMILY_OWNED | PARTNERSHIP | SOLE_PROPRIETORSHIP | OTHER

datatype TaxSavingPotential = HIGH | MEDIUM | LOW

record Address =
  street :: string
  city :: string
  state :: string
  zip_code :: string
  country :: string

record Industry =
  primary :: string
  naics_code :: "string option"
  sic_code :: "string option"
  subcategories :: "string list"

record Financials =
  employee_count :: "int option"
  estimated_revenue :: "real option"
  growth_rate :: "real option"
  capex_trends :: "string option"
  payroll_trends :: "string option"

record TaxIndicators =
  recent_developments :: "string option"
  grants_subsidies :: "string option"
  government_contracts :: "string option"
  succession_planning :: "string option"
  financing_activity :: "string option"
  tax_saving_potential :: TaxSavingPotential

record GeoLocation =
  latitude :: real
  longitude :: real
  region :: "string option"

record Company =
  id_of :: string
  name :: string
  description :: "string option"
  address :: "Address option"
  legal_structure :: "LegalStructure option"
  industry :: "Industry option"
  financials :: "Financials option"
  tax_indicators :: "TaxIndicators option"
  location :: "GeoLocation option"
  website :: "string option"

record CompanyReference =
  company_id :: string
  ref_name :: string
  ref_address :: string
  priority :: int

record Route =
  day :: string
  companies :: "CompanyReference list"
  total_distance :: real
  estimated_travel_time :: real
  optimized_order :: "nat list"

text \<open>\<^verbatim>\<open>LegalStructure.value\<close>: the string each enum member carries.\<close>

fun legal_value :: "LegalStructure \<Rightarrow> string" where
  "legal_value LLC = ''LLC''"
| "legal_value S_CORP = ''S-Corp''"
| "legal_value C_CORP = ''C-Corp''"
| "legal_value FAMILY_OWNED = ''Family-Owned Business''"
| "legal_value PARTNERSHIP = ''Partnership''"
| "legal_value SOLE_PROPRIETORSHIP = ''Sole Proprietorship''"
| "legal_value OTHER = ''Other''"

text \<open>The dataclass defaults: \<^verbatim>\<open>Financials()\<close>, \<^verbatim>\<open>TaxIndicators()\<close>,
  \<^verbatim>\<open>Route(day=d)\<close>.\<close>

definition default_financials :: Financials where
  "default_financials =
     \<lparr>employee_count = None, estimated_revenue = None, growth_rate = None,
      capex_trends = None, payroll_trends = None\<rparr>"

definition default_tax_indicators :: TaxIndicators where
  "default_tax_indicators =
     \<lparr>recent_developments = None, grants_subsidies = None, government_contracts = None,
      succession_planning = None, financing_activity = None, tax_saving_potential = LOW\<rparr>"

definition new_route :: "string \<Rightarrow> Route" where
  "new_route d =
     \<lparr>day = d, companies = [], total_distance = 0, estimated_travel_time = 0,
      optimized_order = []\<rparr>"

subsection \<open>Route.add_company\<close>

text \<open>The f-string \<^verbatim>\<open>f"{street}, {city}, {state} {zip}"\<close>.\<close>

definition format_address :: "Address \<Rightarrow> string" where
  "format_address a = street a @ '', '' @ city a @ '', '' @ state a @ '' '' @ zip_code a"

text \<open>
  \<^verbatim>\<open>Route.add_company(self, company, priority=0)\<close> mutates the route; the model
  returns the updated route. An \<^verbatim>\<open>Address\<close> instance is always truthy, so
  \<^verbatim>\<open>not company.address\<close> holds exactly for \<^verbatim>\<open>None\<close>.
\<close>

definition add_company :: "Route \<Rightarrow> Company \<Rightarrow> int \<Rightarrow> Route" where
  "add_company r c p =
     (case address c of
        None \<Rightarrow> r
      | Some a \<Rightarrow>
          let company_ref = \<lparr>company_id = id_of c, ref_name = name c,
                             ref_address = format_address a, priority = p\<rparr>;
              cs = companies r @ [company_ref]
          in r\<lparr>companies := cs, optimized_order := [0..<length cs]\<rparr>)"

section \<open>Python string and truthiness helpers\<close>

text \<open>
  \<^verbatim>\<open>str.lower()\<close> and \<^verbatim>\<open>str.upper()\<close> on ASCII letters; every other
  character is left as it is (a \<open>char\<close> is a byte, so case mapping beyond ASCII is
  outside the model).
\<close>

definition lower_char :: "char \<Rightarrow> char" where
  "lower_char c =
     (let n = (of_char c :: nat) in if 65 \<le> n \<and> n \<le> 90 then char_of (n + 32) else c)"

definition upper_char :: "char \<Rightarrow> char" where
  "upper_char c =
     (let n = (of_char c :: nat) in if 97 \<le> n \<and> n \<le> 122 then char_of (n - 32) else c)"

definition lower :: "string \<Rightarrow> string" where
  "lower s = map lower_char s"

definition upper :: "string \<Rightarrow> string" where
  "upper s = map upper_char s"

text \<open>\<^verbatim>\<open>sub in s\<close> for strings: \<open>sub\<close> occurs as a contiguous piece of \<open>s\<close>.\<close>

fun py_in :: "string \<Rightarrow> string \<Rightarrow> bool" where
  "py_in sub [] = (sub = [])"
| "py_in sub (c # s) = (take (length sub) (c # s) = sub \<or> py_in sub s)"

text \<open>Truthiness of an \<^verbatim>\<open>Optional[str]\<close>: present and not empty.\<close>

fun truthy_str :: "string option \<Rightarrow> bool" where
  "truthy_str None = False"
| "truthy_str (Some s) = (s \<noteq> [])"


section \<open>Similarity scorer (similarity_scorer.py)\<close>

subsection \<open>Weights\<close>

text \<open>The two weight dictionaries set in \<^verbatim>\<open>SimilarityScorer.__init__\<close>, in
  insertion order.\<close>

definition similarity_weights :: "(string \<times> real) list" where
  "similarity_weights =
     [(''industry'', 0.35), (''size'', 0.25), (''location'', 0.20),
      (''legal_structure'', 0.10), (''growth'', 0.10)]"


text \<open>
  \<^verbatim>\<open>sum(scores[key] * weights[key] for key in scores)\<close>: the scores in their
  insertion order, each multiplied by the weight stored under the same key. A key
  without a weight is Python's \<^verbatim>\<open>KeyError\<close>, here \<open>None\<close>. Python adds
  the products from the left starting at 0; over the reals the order of the additions
  does not matter.
\<close>

fun weighted_sum :: "(string \<times> real) list \<Rightarrow> (string \<times> real) list \<Rightarrow> real option" where
  "weighted_sum weights [] = Some 0"
| "weighted_sum weights ((key, v) # scores) =
     (case map_of weights key of
        None \<Rightarrow> None
      | Some w \<Rightarrow> (case weighted_sum weights scores of
                     None \<Rightarrow> None
                   | Some acc \<Rightarrow> Some (v * w + acc)))"

subsection \<open>The five similarity sub-scores\<close>

definition score_industry_similarity :: "Company \<Rightarrow> Company \<Rightarrow> real" where
  "score_industry_similarity company1 company2 =
     (case industry company1 of
        None \<Rightarrow> 0.1
      | Some i1 \<Rightarrow>
     (case industry company2 of
        None \<Rightarrow> 0.1
      | Some i2 \<Rightarrow>
          if primary i1 = primary i2 then 1.0
          else if truthy_str (naics_code i1) \<and> truthy_str (naics_code i2) \<and>
                  naics_code i1 = naics_code i2 then 0.9
          else if truthy_str (sic_code i1) \<and> truthy_str (sic_code i2) \<and>
                  sic_code i1 = sic_code i2 then 0.9
          else if truthy_str (naics_code i1) \<and> truthy_str (naics_code i2) \<and>
                  take 2 (the (naics_code i1)) = take 2 (the (naics_code i2)) then 0.8
          else if truthy_str (naics_code i1) \<and> truthy_str (naics_code i2) \<and>
                  hd (the (naics_code i1)) = hd (the (naics_code i2)) then 0.6
          else
            let subcategories1 = set (subcategories i1);
                subcategories2 = set (subcategories i2);
                overlap = subcategories1 \<inter> subcategories2
            in if subcategories1 \<noteq> {} \<and> subcategories2 \<noteq> {} \<and> overlap \<noteq> {}
               then 0.5 + (0.3 * real (card overlap) /
                             real (max (card subcategories1) (card subcategories2)))
               else 0.2))"

text \<open>
  \<^verbatim>\<open>np.log10(max(floor, v))\<close> of both values, then the smaller logarithm divided
  by the larger. Both logarithms are at least 1 (the floors are 10 and 10000), so the
  divisor is never zero.
\<close>

definition log_ratio :: "real \<Rightarrow> real \<Rightarrow> real \<Rightarrow> real" where
  "log_ratio floor_value v1 v2 =
     (let log1 = log 10 (max floor_value v1);
          log2 = log 10 (max floor_value v2)
      in min log1 log2 / max log1 log2)"

definition score_size_similarity :: "Company \<Rightarrow> Company \<Rightarrow> real" where
  "score_size_similarity company1 company2 =
     (case financials company1 of
        None \<Rightarrow> 0.5
      | Some f1 \<Rightarrow>
     (case financials company2 of
        None \<Rightarrow> 0.5
      | Some f2 \<Rightarrow>
          let employee_similarity =
                (case employee_count f1 of
                   None \<Rightarrow> 0.5
                 | Some e1 \<Rightarrow>
                     (case employee_count f2 of
                        None \<Rightarrow> 0.5
                      | Some e2 \<Rightarrow> log_ratio 10 (real_of_int e1) (real_of_int e2)));
              revenue_similarity =
                (case estimated_revenue f1 of
                   None \<Rightarrow> 0.5
                 | Some r1 \<Rightarrow>
                     (case estimated_revenue f2 of
                        None \<Rightarrow> 0.5
                      | Some r2 \<Rightarrow> log_ratio 10000 r1 r2))
          in 0.6 * employee_similarity + 0.4 * revenue_similarity))"

definition score_location_similarity :: "Company \<Rightarrow> Company \<Rightarrow> real" where
  "score_location_similarity company1 company2 =
     (case address company1 of
        None \<Rightarrow> 0.1
      | Some a1 \<Rightarrow>
     (case address company2 of
        None \<Rightarrow> 0.1
      | Some a2 \<Rightarrow>
          if street a1 = street a2 \<and> city a1 = city a2 \<and> state a1 = state a2 then 1.0
          else if city a1 = city a2 \<and> state a1 = state a2 then 0.9
          else if state a1 = state a2 \<and> zip_code a1 \<noteq> [] \<and> zip_code a2 \<noteq> [] \<and>
                  take 3 (zip_code a1) = take 3 (zip_code a2) then 0.8
          else if state a1 = state a2 then 0.6
          else 0.2))"

definition corp_types :: "string list" where
  "corp_types = [''C-Corp'', ''S-Corp'']"

definition owner_operated_types :: "string list" where
  "owner_operated_types =
     [''LLC'', ''Family-Owned Business'', ''Partnership'', ''Sole Proprietorship'']"

text \<open>An enum member is always truthy, so only \<^verbatim>\<open>None\<close> takes the first branch.\<close>

definition score_legal_structure_similarity :: "Company \<Rightarrow> Company \<Rightarrow> real" where
  "score_legal_structure_similarity company1 company2 =
     (case legal_structure company1 of
        None \<Rightarrow> 0.5
      | Some l1 \<Rightarrow>
     (case legal_structure company2 of
        None \<Rightarrow> 0.5
      | Some l2 \<Rightarrow>
          if l1 = l2 then 1.0
          else if legal_value l1 \<in> set corp_types \<and> legal_value l2 \<in> set corp_types then 0.8
          else if legal_value l1 \<in> set owner_operated_types \<and>
                  legal_value l2 \<in> set owner_operated_types then 0.7
          else 0.3))"

definition score_growth_similarity :: "Company \<Rightarrow> Company \<Rightarrow> real" where
  "score_growth_similarity company1 company2 =
     (case financials company1 of
        None \<Rightarrow> 0.5
      | Some f1 \<Rightarrow>
     (case financials company2 of
        None \<Rightarrow> 0.5
      | Some f2 \<Rightarrow>
     (case growth_rate f1 of
        None \<Rightarrow> 0.5
      | Some g1 \<Rightarrow>
     (case growth_rate f2 of
        None \<Rightarrow> 0.5
      | Some g2 \<Rightarrow>
          let diff = \<bar>g1 - g2\<bar>
          in if diff \<le> 2 then 1.0
             else if diff \<le> 5 then 0.8
             else if diff \<le> 10 then 0.6
             else if diff \<le> 20 then 0.4
             else 0.2))))"

text \<open>The \<^verbatim>\<open>scores\<close> dictionary that \<^verbatim>\<open>score_company_similarity\<close> fills,
  in insertion order.\<close>

definition similarity_scores :: "Company \<Rightarrow> Company \<Rightarrow> (string \<times> real) list" where
  "similarity_scores reference target =
     [(''industry'', score_industry_similarity reference target),
      (''size'', score_size_similarity reference target),
      (''location'', score_location_similarity reference target),
      (''legal_structure'', score_legal_structure_similarity reference target),
      (''growth'', score_growth_similarity reference target)]"

definition score_company_similarity :: "Company \<Rightarrow> Company \<Rightarrow> real option" where
  "score_company_similarity reference target =
     weighted_sum similarity_weights (similarity_scores reference target)"

subsection \<open>Double-precision arithmetic\<close>










subsection \<open>Tax-saving potential\<close>

















section \<open>Logistics optimizer (logistics_optimizer.py)\<close>

subsection \<open>Route optimization\<close>

text \<open>\<^verbatim>\<open>_calculate_distance\<close>: the placeholder of the source, 10 miles for every pair.\<close>

definition calculate_distance :: "string \<Rightarrow> string \<Rightarrow> real" where
  "calculate_distance address1 address2 = 10.0"

text \<open>\<^verbatim>\<open>distances[i][j] = v\<close> on a list of rows.\<close>

definition set_cell :: "real list list \<Rightarrow> nat \<Rightarrow> nat \<Rightarrow> real \<Rightarrow> real list list" where
  "set_cell distances i j v = distances[i := (distances ! i)[j := v]]"

text \<open>
  \<^verbatim>\<open>_calculate_distance_matrix\<close>: an \<open>n \<times> n\<close> matrix of zeros over the start
  location followed by the companies' addresses, filled for every \<open>i < j < n\<close> in both
  \<open>[i][j]\<close> and \<open>[j][i]\<close>. All indices written are below \<open>n\<close>.
\<close>

definition calculate_distance_matrix :: "CompanyReference list \<Rightarrow> string \<Rightarrow> real list list" where
  "calculate_distance_matrix cs start_location =
     (let addresses = start_location # map ref_address cs;
          n = length addresses;
          distances = replicate n (replicate n 0)
      in fold (\<lambda>i ds.
           fold (\<lambda>j ds'.
             let distance = calculate_distance (addresses ! i) (addresses ! j)
             in set_cell (set_cell ds' i j distance) j i distance) [i + 1..<n] ds)
           [0..<n] distances)"

text \<open>\<^verbatim>\<open>distances[i][j]\<close> as a read that can fail: \<open>None\<close> is Python's
  \<^verbatim>\<open>IndexError\<close>.\<close>

definition dist_at :: "real list list \<Rightarrow> nat \<Rightarrow> nat \<Rightarrow> real option" where
  "dist_at distances i j =
     (if i < length distances \<and> j < length (distances ! i) then Some (distances ! i ! j)
      else None)"

text \<open>
  \<^verbatim>\<open>min(unvisited, key=...)\<close>: the first element, in iteration order, whose key
  is smallest (a later element replaces the best one only when its key is strictly
  smaller).
\<close>

fun argmin_first :: "nat \<Rightarrow> real \<Rightarrow> (nat \<times> real) list \<Rightarrow> nat" where
  "argmin_first best best_key [] = best"
| "argmin_first best best_key ((x, k) # rest) =
     (if k < best_key then argmin_first x k rest else argmin_first best best_key rest)"

definition closest_unvisited :: "real list list \<Rightarrow> nat \<Rightarrow> nat list \<Rightarrow> nat option" where
  "closest_unvisited distances current unvisited =
     (case those (map (dist_at distances current) unvisited) of
        None \<Rightarrow> None
      | Some keys \<Rightarrow>
          (case zip unvisited keys of
             [] \<Rightarrow> None
           | (x, k) # rest \<Rightarrow> Some (argmin_first x k rest)))"

lemma argmin_first_mem: "argmin_first b bk xs \<in> insert b (fst ` set xs)"
  by (induction b bk xs rule: argmin_first.induct) auto

lemma closest_unvisited_mem:
  "closest_unvisited distances current unvisited = Some x \<Longrightarrow> x \<in> set unvisited"
proof -
  assume a: "closest_unvisited distances current unvisited = Some x"
  then obtain keys y k rest where z: "zip unvisited keys = (y, k) # rest"
    and x: "x = argmin_first y k rest"
    by (auto simp: closest_unvisited_def split: option.splits list.splits)
  have "x \<in> insert y (fst ` set rest)" unfolding x by (rule argmin_first_mem)
  then have "x \<in> fst ` set (zip unvisited keys)" using z by auto
  then show ?thesis by (auto dest: set_zip_leftD)
qed

text \<open>
  The \<^verbatim>\<open>while unvisited\<close> loop of \<^verbatim>\<open>_solve_tsp_greedy\<close>. The set
  \<^verbatim>\<open>unvisited\<close> is a list in iteration order (CPython iterates
  \<^verbatim>\<open>set(range(1, n))\<close> in ascending order); \<^verbatim>\<open>remove\<close> keeps that order.
\<close>

function tsp_loop :: "real list list \<Rightarrow> nat \<Rightarrow> nat list \<Rightarrow> nat list \<Rightarrow> nat list option" where
  "tsp_loop distances current unvisited tour =
     (if unvisited = [] then Some tour
      else case closest_unvisited distances current unvisited of
             None \<Rightarrow> None
           | Some closest \<Rightarrow>
               tsp_loop distances closest (remove1 closest unvisited) (tour @ [closest]))"
  by pat_completeness auto
termination
proof (relation "measure (\<lambda>(distances, current, unvisited, tour). length unvisited)")
  show "wf (measure (\<lambda>(distances, current, unvisited, tour). length unvisited))" by simp
next
  fix distances :: "real list list" and current :: nat and unvisited tour :: "nat list"
    and closest :: nat
  assume "unvisited \<noteq> []" and "closest_unvisited distances current unvisited = Some closest"
  then have "closest \<in> set unvisited" by (auto dest: closest_unvisited_mem)
  then have "length (remove1 closest unvisited) < length unvisited"
    by (simp add: length_remove1) (cases unvisited; simp)
  then show "((distances, closest, remove1 closest unvisited, tour @ [closest]),
              (distances, current, unvisited, tour))
             \<in> measure (\<lambda>(distances, current, unvisited, tour). length unvisited)"
    by simp
qed

declare tsp_loop.simps [simp del]

definition solve_tsp_greedy :: "real list list \<Rightarrow> nat list option" where
  "solve_tsp_greedy distances =
     (let n = length distances
      in case tsp_loop distances 0 [1..<n] [0] of
           None \<Rightarrow> None
         | Some tour \<Rightarrow> Some (tour @ [0]))"

text \<open>The loop summing \<^verbatim>\<open>distances[order[i]][order[i + 1]]\<close> along the tour.\<close>

fun tour_distance :: "real list list \<Rightarrow> nat list \<Rightarrow> real option" where
  "tour_distance distances (from_idx # to_idx # rest) =
     (case dist_at distances from_idx to_idx of
        None \<Rightarrow> None
      | Some d \<Rightarrow>
          (case tour_distance distances (to_idx # rest) of
             None \<Rightarrow> None
           | Some acc \<Rightarrow> Some (d + acc)))"
| "tour_distance distances order = Some 0"

text \<open>
  \<^verbatim>\<open>optimize_route\<close>. \<open>None\<close> stands for an exception escaping the function
  (an index out of range in the matrix).
\<close>

definition optimize_route :: "Company list \<Rightarrow> string \<Rightarrow> Route option" where
  "optimize_route cs start_location =
     (if cs = [] then
        Some \<lparr>day = [], companies = [], total_distance = 0, estimated_travel_time = 0,
              optimized_order = []\<rparr>
      else
        let day0 = (case location (hd cs) of
                      None \<Rightarrow> ''Monday''
                    | Some loc \<Rightarrow> if truthy_str (region loc) then the (region loc)
                                  else ''Monday'');
            route = fold (\<lambda>company r. add_company r company 0) cs (new_route day0)
        in if companies route = [] then Some route
           else
             let distances = calculate_distance_matrix (companies route) start_location
             in case solve_tsp_greedy distances of
                  None \<Rightarrow> None
                | Some order \<Rightarrow>
                    (case tour_distance distances order of
                       None \<Rightarrow> None
                     | Some tot \<Rightarrow>
                         Some (route\<lparr>optimized_order := order, total_distance := tot,
                                     estimated_travel_time := tot / 30\<rparr>)))"

text \<open>An \<open>n \<times> n\<close> matrix: \<open>n\<close> rows of length \<open>n\<close>.\<close>

definition square :: "nat \<Rightarrow> real list list \<Rightarrow> bool" where
  "square n ds = (length ds = n \<and> list_all (\<lambda>row. length row = n) ds)"

subsection \<open>Outreach-day suggestion\<close>

text \<open>
  \<^verbatim>\<open>suggest_best_outreach_days(companies, historical_data=None)\<close>. A dictionary is
  an association list in insertion order; \<^verbatim>\<open>if historical_data:\<close> is false for
  \<^verbatim>\<open>None\<close> and for the empty dictionary.
\<close>

definition default_rates :: "(string \<times> real) list" where
  "default_rates =
     [(''Monday'', 0.7), (''Tuesday'', 0.9), (''Wednesday'', 0.8), (''Thursday'', 0.7),
      (''Friday'', 0.5)]"

definition suggest_best_outreach_days ::
    "Company list \<Rightarrow> (string \<times> real) list option \<Rightarrow> (string \<times> real) list" where
  "suggest_best_outreach_days cs historical_data =
     (case historical_data of
        None \<Rightarrow> default_rates
      | Some h \<Rightarrow> if h \<noteq> [] then h else default_rates)"

subsection \<open>Location schedule (config.py)\<close>

text \<open>
  The class attributes of \<^verbatim>\<open>Config\<close> that the schedule reads. The three location
  lists come from \<^verbatim>\<open>os.getenv(...).split(',')\<close> and are lists;
  \<^verbatim>\<open>THURSDAY_FRIDAY\<close> is a plain string. \<open>default_config\<close> holds the values
  used when the environment sets none.
\<close>

record Config =
  MONDAY_LOCATIONS :: "string list"
  TUESDAY_LOCATIONS :: "string list"
  WEDNESDAY_LOCATIONS :: "string list"
  THURSDAY_FRIDAY :: string

definition default_config :: Config where
  "default_config =
     \<lparr>MONDAY_LOCATIONS = [''Waukesha'', ''West Milwaukee'', ''Jackson'', ''West Bend''],
      TUESDAY_LOCATIONS = [''Kenosha'', ''Racine''],
      WEDNESDAY_LOCATIONS = [''West Waukesha'', ''Madison''],
      THURSDAY_FRIDAY = ''Follow-up''\<rparr>"

datatype regions = RegionList "string list" | RegionText string

definition get_location_schedule :: "Config \<Rightarrow> (string \<times> regions) list" where
  "get_location_schedule cfg =
     [(''Monday'', RegionList (MONDAY_LOCATIONS cfg)),
      (''Tuesday'', RegionList (TUESDAY_LOCATIONS cfg)),
      (''Wednesday'', RegionList (WEDNESDAY_LOCATIONS cfg)),
      (''Thursday'', RegionText (THURSDAY_FRIDAY cfg)),
      (''Friday'', RegionText (THURSDAY_FRIDAY cfg))]"

subsection \<open>Day assignment\<close>

text \<open>\<^verbatim>\<open>region_lower in company_city or company_city in region_lower\<close>.\<close>

definition region_matches :: "string \<Rightarrow> string \<Rightarrow> bool" where
  "region_matches company_city region_name =
     (let region_lower = lower region_name
      in py_in region_lower company_city \<or> py_in company_city region_lower)"

text \<open>The inner loop over a day's regions; a value that is not a list
  (\<^verbatim>\<open>isinstance(regions, list)\<close> false) matches nothing.\<close>

fun day_matches :: "string \<Rightarrow> regions \<Rightarrow> bool" where
  "day_matches company_city (RegionList rs) = list_ex (region_matches company_city) rs"
| "day_matches company_city (RegionText t) = False"

text \<open>The loop over \<^verbatim>\<open>location_schedule.items()\<close>: the first day, in the
  dictionary's order, one of whose regions matches.\<close>

fun first_matching_day :: "(string \<times> regions) list \<Rightarrow> string \<Rightarrow> string option" where
  "first_matching_day [] company_city = None"
| "first_matching_day ((d, rs) # rest) company_city =
     (if day_matches company_city rs then Some d else first_matching_day rest company_city)"

text \<open>\<^verbatim>\<open>days[d].append(company)\<close>; a missing key is Python's \<^verbatim>\<open>KeyError\<close>,
  here \<open>None\<close>.\<close>

fun append_to_day ::
    "string \<Rightarrow> Company \<Rightarrow> (string \<times> Company list) list \<Rightarrow> (string \<times> Company list) list option" where
  "append_to_day d c [] = None"
| "append_to_day d c ((k, cs) # rest) =
     (if k = d then Some ((k, cs @ [c]) # rest)
      else case append_to_day d c rest of
             None \<Rightarrow> None
           | Some rest' \<Rightarrow> Some ((k, cs) # rest'))"

text \<open>\<^verbatim>\<open>not company.address or not company.address.city\<close> is false: the company
  has an address with a non-empty city.\<close>

definition has_city :: "Company \<Rightarrow> bool" where
  "has_city c = (case address c of None \<Rightarrow> False | Some a \<Rightarrow> city a \<noteq> [])"

fun assign_loop ::
    "(string \<times> regions) list \<Rightarrow> Company list \<Rightarrow> (string \<times> Company list) list \<Rightarrow>
       (string \<times> Company list) list option" where
  "assign_loop schedule [] days = Some days"
| "assign_loop schedule (company # rest) days =
     (if \<not> has_city company then assign_loop schedule rest days
      else
        let company_city = lower (city (the (address company)))
        in case first_matching_day schedule company_city of
             Some d \<Rightarrow>
               (case append_to_day d company days of
                  None \<Rightarrow> None
                | Some days' \<Rightarrow> assign_loop schedule rest days')
           | None \<Rightarrow>
               (case append_to_day ''Thursday'' company days of
                  None \<Rightarrow> None
                | Some days' \<Rightarrow> assign_loop schedule rest days'))"

definition assign_companies_to_days ::
    "Config \<Rightarrow> Company list \<Rightarrow> (string \<times> Company list) list option" where
  "assign_companies_to_days cfg cs =
     (let location_schedule = get_location_schedule cfg;
          days = map (\<lambda>(d, rs). (d, [])) location_schedule
      in assign_loop location_schedule cs days)"

text \<open>How often a value occurs over all the lists of a dictionary of lists.\<close>

definition occurrences :: "('k \<times> 'a list) list \<Rightarrow> 'a \<Rightarrow> nat" where
  "occurrences m x = sum_list (map (\<lambda>(k, xs). count_list xs x) m)"

text \<open>The day a company with a city ends up on.\<close>

definition assigned_day :: "(string \<times> regions) list \<Rightarrow> Company \<Rightarrow> string" where
  "assigned_day schedule c =
     (case first_matching_day schedule (lower (city (the (address c)))) of
        Some d \<Rightarrow> d
      | None \<Rightarrow> ''Thursday'')"

subsection \<open>Regional clustering\<close>

text \<open>
  The filter of \<^verbatim>\<open>cluster_companies_by_region\<close>:
  \<^verbatim>\<open>c.location and c.location.latitude and c.location.longitude\<close>. A
  \<^verbatim>\<open>GeoLocation\<close> instance is truthy; a float is truthy unless it is 0.0.
\<close>

definition has_valid_location :: "Company \<Rightarrow> bool" where
  "has_valid_location c =
     (case location c of
        None \<Rightarrow> False
      | Some loc \<Rightarrow> latitude loc \<noteq> 0 \<and> longitude loc \<noteq> 0)"

text \<open>\<^verbatim>\<open>str\<close> of an integer, for the f-string \<^verbatim>\<open>f"Cluster_{label}"\<close>.\<close>

definition digit_char :: "nat \<Rightarrow> char" where
  "digit_char d = char_of (48 + d)"

fun str_nat :: "nat \<Rightarrow> string" where
  "str_nat n = (if n < 10 then [digit_char n] else str_nat (n div 10) @ [digit_char (n mod 10)])"

definition str_int :: "int \<Rightarrow> string" where
  "str_int i = (if i < 0 then CHR ''-'' # str_nat (nat (- i)) else str_nat (nat i))"

definition region_of_label :: "int \<Rightarrow> string" where
  "region_of_label label = (if label = - 1 then ''Other'' else ''Cluster_'' @ str_int label)"

text \<open>
  \<^verbatim>\<open>if region not in clusters: clusters[region] = []\<close> followed by
  \<^verbatim>\<open>clusters[region].append(company)\<close>; a new key goes to the end of the
  dictionary's order.
\<close>

fun add_to_cluster ::
    "string \<Rightarrow> Company \<Rightarrow> (string \<times> Company list) list \<Rightarrow> (string \<times> Company list) list" where
  "add_to_cluster r c [] = [(r, [c])]"
| "add_to_cluster r c ((k, cs) # rest) =
     (if k = r then (k, cs @ [c]) # rest else (k, cs) # add_to_cluster r c rest)"

text \<open>
  \<^verbatim>\<open>for i, label in enumerate(labels)\<close>; reading
  \<^verbatim>\<open>companies_with_location[i]\<close> beyond the list is an \<^verbatim>\<open>IndexError\<close>,
  here \<open>None\<close>.
\<close>

fun cluster_loop ::
    "Company list \<Rightarrow> nat \<Rightarrow> int list \<Rightarrow> (string \<times> Company list) list \<Rightarrow>
       (string \<times> Company list) list option" where
  "cluster_loop companies_with_location i [] clusters = Some clusters"
| "cluster_loop companies_with_location i (label # labels) clusters =
     (if i < length companies_with_location
      then cluster_loop companies_with_location (i + 1) labels
             (add_to_cluster (region_of_label label) (companies_with_location ! i) clusters)
      else None)"

text \<open>
  \<^verbatim>\<open>cluster_companies_by_region\<close>. \<^verbatim>\<open>DBSCAN(eps, min_samples).fit(X).labels_\<close>
  belongs to scikit-learn and is the parameter \<open>dbscan\<close>: it maps the coordinate rows to
  one integer label per row.
\<close>

definition cluster_companies_by_region ::
    "(real \<Rightarrow> nat \<Rightarrow> (real \<times> real) list \<Rightarrow> int list) \<Rightarrow> Company list \<Rightarrow>
       (string \<times> Company list) list option" where
  "cluster_companies_by_region dbscan cs =
     (let companies_with_location = filter has_valid_location cs
      in if companies_with_location = [] then Some []
         else
           let coordinates = map (\<lambda>c. (latitude (the (location c)), longitude (the (location c))))
                               companies_with_location;
               labels = dbscan 0.05 2 coordinates
           in cluster_loop companies_with_location 0 labels [])"

text \<open>The coordinate rows handed to the clustering for an input list.\<close>

definition cluster_coordinates :: "Company list \<Rightarrow> (real \<times> real) list" where
  "cluster_coordinates cs =
     map (\<lambda>c. (latitude (the (location c)), longitude (the (location c))))
       (filter has_valid_location cs)"

section \<open>Normalizer (data_normalizer.py)\<close>

subsection \<open>Python string operations and number parsing\<close>

text \<open>\<^verbatim>\<open>str.strip()\<close>: the ASCII characters for which \<^verbatim>\<open>str.isspace\<close>
  holds (9 to 13, 28 to 31 and 32) are removed at both ends.\<close>

definition is_space :: "char \<Rightarrow> bool" where
  "is_space c = (let n = (of_char c :: nat) in n = 32 \<or> (9 \<le> n \<and> n \<le> 13) \<or> (28 \<le> n \<and> n \<le> 31))"

definition py_strip :: "string \<Rightarrow> string" where
  "py_strip s = rev (dropWhile is_space (rev (dropWhile is_space s)))"

text \<open>
  \<^verbatim>\<open>int()\<close> and \<^verbatim>\<open>float()\<close> themselves skip a narrower set around the
  number: space, tab, line feed, vertical tab, form feed and carriage return.
\<close>

definition is_c_space :: "char \<Rightarrow> bool" where
  "is_c_space c = (let n = (of_char c :: nat) in n = 32 \<or> (9 \<le> n \<and> n \<le> 13))"

definition c_strip :: "string \<Rightarrow> string" where
  "c_strip s = rev (dropWhile is_c_space (rev (dropWhile is_c_space s)))"

text \<open>\<^verbatim>\<open>s.replace(c, '')\<close> for a one-character \<open>c\<close>.\<close>

definition remove_char :: "char \<Rightarrow> string \<Rightarrow> string" where
  "remove_char c s = filter (\<lambda>x. x \<noteq> c) s"

text \<open>\<^verbatim>\<open>s.split(sep)\<close> for a one-character separator; the result is never empty.\<close>

fun split_on :: "char \<Rightarrow> string \<Rightarrow> string list" where
  "split_on sep [] = [[]]"
| "split_on sep (c # s) =
     (if c = sep then [] # split_on sep s
      else case split_on sep s of
             [] \<Rightarrow> [[c]]
           | p # ps \<Rightarrow> (c # p) # ps)"

text \<open>\<^verbatim>\<open>s.endswith(c)\<close> for a one-character \<open>c\<close>.\<close>

definition ends_with :: "string \<Rightarrow> char \<Rightarrow> bool" where
  "ends_with s c = (s \<noteq> [] \<and> last s = c)"

definition is_digit :: "char \<Rightarrow> bool" where
  "is_digit c = (let n = (of_char c :: nat) in 48 \<le> n \<and> n \<le> 57)"

definition digit_value :: "char \<Rightarrow> nat" where
  "digit_value c = of_char c - 48"

text \<open>
  The grammar \<^verbatim>\<open>digitpart ::= digit (["_"] digit)*\<close> shared by \<^verbatim>\<open>int()\<close>
  and \<^verbatim>\<open>float()\<close>: \<open>digitpart_tail\<close> accepts what may follow a digit.
\<close>

fun digitpart_tail :: "string \<Rightarrow> bool" where
  "digitpart_tail [] = True"
| "digitpart_tail [c] = is_digit c"
| "digitpart_tail (c # d # s) =
     (if is_digit c then digitpart_tail (d # s)
      else c = CHR ''_'' \<and> is_digit d \<and> digitpart_tail s)"

definition is_digitpart :: "string \<Rightarrow> bool" where
  "is_digitpart s = (case s of [] \<Rightarrow> False | c # rest \<Rightarrow> is_digit c \<and> digitpart_tail rest)"

definition digits_value :: "string \<Rightarrow> nat" where
  "digits_value s = foldl (\<lambda>acc c. 10 * acc + digit_value c) 0 (filter is_digit s)"

text \<open>A leading sign: whether it is a minus, and the rest.\<close>

fun parse_sign :: "string \<Rightarrow> bool \<times> string" where
  "parse_sign [] = (False, [])"
| "parse_sign (c # rest) =
     (if c = CHR ''-'' then (True, rest)
      else if c = CHR ''+'' then (False, rest)
      else (False, c # rest))"

text \<open>
  \<^verbatim>\<open>int(s)\<close> in base 10 over ASCII: surrounding whitespace, an optional sign and
  a digit part. \<open>None\<close> is \<^verbatim>\<open>ValueError\<close>.
\<close>

definition py_int :: "string \<Rightarrow> int option" where
  "py_int s =
     (let (negative, body) = parse_sign (c_strip s)
      in if is_digitpart body
         then Some (if negative then - int (digits_value body) else int (digits_value body))
         else None)"

text \<open>The text before the first character satisfying \<open>P\<close>, and the text after it when
  there is one.\<close>

definition split_first :: "(char \<Rightarrow> bool) \<Rightarrow> string \<Rightarrow> string \<times> string option" where
  "split_first P s =
     (let rest = dropWhile (\<lambda>c. \<not> P c) s
      in (takeWhile (\<lambda>c. \<not> P c) s, if rest = [] then None else Some (tl rest)))"

text \<open>
  The finite literals of \<^verbatim>\<open>float(s)\<close> over ASCII, following
  \<^verbatim>\<open>[sign] ([digitpart] "." digitpart | digitpart ["."]) [("e"|"E") [sign] digitpart]\<close>
  with surrounding whitespace removed. The result \<open>(m, e)\<close> stands for \<open>m * 10^e\<close>.
  The literals \<^verbatim>\<open>inf\<close>, \<^verbatim>\<open>infinity\<close> and \<^verbatim>\<open>nan\<close> have no real
  value and are outside the model: they are treated as unparsable. A finite literal keeps
  its exact decimal value (no rounding to a float, no overflow to infinity).
\<close>

definition parse_decimal :: "string \<Rightarrow> (int \<times> int) option" where
  "parse_decimal s =
     (let (negative, body) = parse_sign (c_strip s);
          (mantissa, exponent) = split_first (\<lambda>c. c = CHR ''e'' \<or> c = CHR ''E'') body;
          (int_part, frac_part) = split_first (\<lambda>c. c = CHR ''.'') mantissa;
          mantissa_ok =
            (case frac_part of
               None \<Rightarrow> is_digitpart int_part
             | Some f \<Rightarrow> (int_part = [] \<or> is_digitpart int_part) \<and>
                         (f = [] \<or> is_digitpart f) \<and> (int_part \<noteq> [] \<or> f \<noteq> []));
          frac_digits = (case frac_part of None \<Rightarrow> [] | Some f \<Rightarrow> filter is_digit f);
          m = int (digits_value (int_part @ frac_digits));
          exponent_value =
            (case exponent of
               None \<Rightarrow> Some 0
             | Some e \<Rightarrow>
                 (let (exp_negative, exp_body) = parse_sign e
                  in if is_digitpart exp_body
                     then Some (if exp_negative then - int (digits_value exp_body)
                                else int (digits_value exp_body))
                     else None))
      in if mantissa_ok
         then (case exponent_value of
                 None \<Rightarrow> None
               | Some ev \<Rightarrow> Some (if negative then - m else m, ev - int (length frac_digits)))
         else None)"

text \<open>\<^verbatim>\<open>float(s)\<close> as a real number; \<open>None\<close> is \<^verbatim>\<open>ValueError\<close>.\<close>

definition py_float :: "string \<Rightarrow> real option" where
  "py_float s =
     (case parse_decimal s of
        None \<Rightarrow> None
      | Some (m, e) \<Rightarrow>
          Some (if 0 \<le> e then real_of_int m * 10 ^ nat e else real_of_int m / 10 ^ nat (- e)))"

subsection \<open>normalize_employee_count\<close>

text \<open>The argument type \<^verbatim>\<open>Union[int, str, None]\<close>.\<close>

datatype raw_count = CountNone | CountInt int | CountStr string

text \<open>
  The three attempts on a string, in the source's order; a \<^verbatim>\<open>ValueError\<close> in one
  attempt falls through to the next, and the last one falls through to the warning and
  \<^verbatim>\<open>return None\<close>.
\<close>

definition count_from_range :: "string \<Rightarrow> int option" where
  "count_from_range s =
     (if CHR ''-'' \<in> set s then
        (let parts = split_on CHR ''-'' s
         in if length parts = 2 then
              (case py_int (py_strip (parts ! 0)) of
                 None \<Rightarrow> None
               | Some lower_bound \<Rightarrow>
                   (case py_int (py_strip (parts ! 1)) of
                      None \<Rightarrow> None
                    | Some upper_bound \<Rightarrow> Some ((lower_bound + upper_bound) div 2)))
            else None)
      else None)"

definition count_from_plus :: "string \<Rightarrow> int option" where
  "count_from_plus s =
     (if CHR ''+'' \<in> set s then py_int (remove_char CHR ''+'' (remove_char CHR '','' s))
      else None)"

definition normalize_employee_count :: "raw_count \<Rightarrow> int option" where
  "normalize_employee_count raw =
     (case raw of
        CountNone \<Rightarrow> None
      | CountInt n \<Rightarrow> Some n
      | CountStr s \<Rightarrow>
          (case count_from_range s of
             Some v \<Rightarrow> Some v
           | None \<Rightarrow>
               (case count_from_plus s of
                  Some v \<Rightarrow> Some v
                | None \<Rightarrow> py_int (remove_char CHR '','' s))))"

subsection \<open>normalize_revenue\<close>

text \<open>\<^verbatim>\<open>parse_revenue_with_suffix\<close>: every \<^verbatim>\<open>ValueError\<close> is caught inside
  and ends in \<^verbatim>\<open>return None\<close>.\<close>

definition parse_revenue_with_suffix :: "string \<Rightarrow> real option" where
  "parse_revenue_with_suffix revenue_str =
     (let s = upper (py_strip revenue_str)
      in if ends_with s CHR ''K'' then map_option (\<lambda>v. v * 1000) (py_float (butlast s))
         else if ends_with s CHR ''M'' then map_option (\<lambda>v. v * 1000000) (py_float (butlast s))
         else if ends_with s CHR ''B'' then map_option (\<lambda>v. v * 1000000000) (py_float (butlast s))
         else py_float s)"

text \<open>The argument type \<^verbatim>\<open>Union[float, str, None]\<close>; the numeric case covers
  \<^verbatim>\<open>isinstance(revenue, (int, float))\<close>.\<close>

datatype raw_revenue = RevenueNone | RevenueNumber real | RevenueStr string

definition revenue_from_range :: "string \<Rightarrow> real option" where
  "revenue_from_range cleaned =
     (if CHR ''-'' \<in> set cleaned then
        (let parts = split_on CHR ''-'' cleaned
         in if length parts = 2 then
              (case parse_revenue_with_suffix (py_strip (parts ! 0)) of
                 None \<Rightarrow> None
               | Some lower_bound \<Rightarrow>
                   (case parse_revenue_with_suffix (py_strip (parts ! 1)) of
                      None \<Rightarrow> None
                    | Some upper_bound \<Rightarrow> Some ((lower_bound + upper_bound) / 2)))
            else None)
      else None)"

definition normalize_revenue :: "raw_revenue \<Rightarrow> real option" where
  "normalize_revenue raw =
     (case raw of
        RevenueNone \<Rightarrow> None
      | RevenueNumber v \<Rightarrow> Some v
      | RevenueStr s \<Rightarrow>
          (let cleaned = remove_char CHR '','' (remove_char CHR ''$'' s)
           in case revenue_from_range cleaned of
                Some v \<Rightarrow> Some v
              | None \<Rightarrow> parse_revenue_with_suffix cleaned))"

section \<open>Example data\<close>

definition addr_main :: Address where
  "addr_main = \<lparr>street = ''123 Main St'', city = ''Milwaukee'', state = ''WI'',
                 zip_code = ''53202'', country = ''USA''\<rparr>"

definition bare_company :: Company where
  "bare_company =
     \<lparr>id_of = ''c0'', name = ''No Address'', description = None, address = None,
      legal_structure = None, industry = None, financials = Some default_financials,
      tax_indicators = Some default_tax_indicators, location = None, website = None\<rparr>"

definition milwaukee_company :: Company where
  "milwaukee_company = bare_company\<lparr>id_of := ''company1'', name := ''Milwaukee Company'',
      address := Some addr_main\<rparr>"

definition stale_route :: Route where
  "stale_route =
     \<lparr>day = ''Monday'',
      companies = [\<lparr>company_id = ''a'', ref_name = ''A'', ref_address = ''x'', priority = 0\<rparr>,
                   \<lparr>company_id = ''b'', ref_name = ''B'', ref_address = ''y'', priority = 0\<rparr>],
      total_distance = 30, estimated_travel_time = 1, optimized_order = [0, 2, 1, 0]\<rparr>"

definition full_company :: Company where
  "full_company =
     \<lparr>id_of = ''company1'', name = ''Test Manufacturing'',
      description = Some ''A test manufacturing company'',
      address = Some addr_main, legal_structure = Some LLC,
      industry = Some \<lparr>primary = ''Manufacturing'', naics_code = Some ''333'',
                        sic_code = Some ''3500'', subcategories = []\<rparr>,
      financials = Some \<lparr>employee_count = Some 50, estimated_revenue = Some 5000000,
                          growth_rate = Some 15, capex_trends = None, payroll_trends = None\<rparr>,
      tax_indicators = Some default_tax_indicators, location = None, website = None\<rparr>"

definition other_company :: Company where
  "other_company =
     \<lparr>id_of = ''company3'', name = ''Different Construction'',
      description = Some ''A construction company'',
      address = Some \<lparr>street = ''789 Pine St'', city = ''Madison'', state = ''WI'',
                       zip_code = ''53703'', country = ''USA''\<rparr>,
      legal_structure = Some S_CORP,
      industry = Some \<lparr>primary = ''Construction'', naics_code = Some ''236'',
                        sic_code = Some ''1500'', subcategories = []\<rparr>,
      financials = Some \<lparr>employee_count = Some 100, estimated_revenue = Some 10000000,
                          growth_rate = Some 5, capex_trends = None, payroll_trends = None\<rparr>,
      tax_indicators = Some default_tax_indicators, location = None, website = None\<rparr>"



definition waukesha_company :: Company where
  "waukesha_company = bare_company\<lparr>id_of := ''company2'', name := ''Waukesha Company'',
      address := Some \<lparr>street = ''456 Oak St'', city = ''Waukesha'', state = ''WI'',
                        zip_code = ''53186'', country = ''USA''\<rparr>\<rparr>"

definition madison_company :: Company where
  "madison_company = bare_company\<lparr>id_of := ''company4'', name := ''Madison Company'',
      address := Some \<lparr>street = ''101 Elm St'', city = ''Madison'', state = ''WI'',
                        zip_code = ''53703'', country = ''USA''\<rparr>\<rparr>"

definition chicago_company :: Company where
  "chicago_company = bare_company\<lparr>id_of := ''company5'', name := ''Chicago Company'',
      address := Some \<lparr>street = ''1 Lake St'', city = ''Chicago'', state = ''IL'',
                        zip_code = ''60601'', country = ''USA''\<rparr>\<rparr>"

definition located :: "real \<Rightarrow> real \<Rightarrow> Company \<Rightarrow> Company" where
  "located lat lng c = c\<lparr>location := Some \<lparr>latitude = lat, longitude = lng, region = None\<rparr>\<rparr>"

text \<open>A stand-in labelling for the examples: every row is noise except the first two.\<close>

definition example_dbscan :: "real \<Rightarrow> nat \<Rightarrow> (real \<times> real) list \<Rightarrow> int list" where
  "example_dbscan eps min_samples coordinates =
     map (\<lambda>i. if i < 2 then 0 else - 1) [0..<length coordinates]"

section \<open>Route.add_company: frame and effect\<close>

text \<open>
  C10. \<^verbatim>\<open>Route.add_company\<close> called with a company whose address is missing
  leaves the route unchanged in every field. Called with a company that has an address,
  it appends exactly one \<^verbatim>\<open>CompanyReference\<close> (id, name, formatted address and
  the given priority) to \<^verbatim>\<open>companies\<close> and sets \<^verbatim>\<open>optimized_order\<close> to the
  identity order \<open>[0, ..., len(companies) - 1]\<close> of the new list, whatever order was
  stored before, while \<^verbatim>\<open>day\<close>, \<^verbatim>\<open>total_distance\<close> and
  \<^verbatim>\<open>estimated_travel_time\<close> keep their values.
\<close>

theorem add_company_frame_effect:
  "(address c = None \<longrightarrow> add_company r c p = r) \<and>
   (\<forall>a. address c = Some a \<longrightarrow>
      companies (add_company r c p) =
        companies r @ [\<lparr>company_id = id_of c, ref_name = name c,
                        ref_address = format_address a, priority = p\<rparr>] \<and>
      optimized_order (add_company r c p) = [0..<length (companies r) + 1] \<and>
      total_distance (add_company r c p) = total_distance r \<and>
      estimated_travel_time (add_company r c p) = estimated_travel_time r \<and>
      day (add_company r c p) = day r)"
  by (simp add: add_company_def Let_def)

theorem add_company_frame_effect_witness:
  "address bare_company = None \<and> add_company stale_route bare_company 0 = stale_route \<and>
   address milwaukee_company = Some addr_main \<and>
   companies (add_company stale_route milwaukee_company 5) =
     companies stale_route @
       [\<lparr>company_id = ''company1'', ref_name = ''Milwaukee Company'',
         ref_address = ''123 Main St, Milwaukee, WI 53202'', priority = 5\<rparr>] \<and>
   optimized_order (add_company stale_route milwaukee_company 5) = [0, 1, 2] \<and>
   total_distance (add_company stale_route milwaukee_company 5) = 30 \<and>
   estimated_travel_time (add_company stale_route milwaukee_company 5) = 1"
  using add_company_frame_effect [of bare_company stale_route 0]
    add_company_frame_effect [of milwaukee_company stale_route 5]
  by (simp add: bare_company_def milwaukee_company_def stale_route_def addr_main_def
      format_address_def upt_conv_Cons)

section \<open>Similarity scorer: helper facts\<close>


lemma one_le_log_floor: "10 \<le> fl \<Longrightarrow> 1 \<le> log 10 (max fl v)"
proof -
  assume a: "10 \<le> fl"
  have "log 10 10 \<le> log 10 (max fl v)" using a by (subst log_le_cancel_iff) auto
  then show ?thesis by simp
qed

lemma log_ratio_self: "10 \<le> fl \<Longrightarrow> log_ratio fl v v = 1"
proof -
  assume "10 \<le> fl"
  then have "1 \<le> log 10 (max fl v)" by (rule one_le_log_floor)
  then have "log 10 (max fl v) \<noteq> 0" by linarith
  then show ?thesis by (simp add: log_ratio_def Let_def)
qed

lemma log_ratio_sym: "log_ratio fl a b = log_ratio fl b a"
  by (simp add: log_ratio_def Let_def min.commute max.commute)

lemma industry_sym: "score_industry_similarity a b = score_industry_similarity b a"
  by (auto simp: score_industry_similarity_def Let_def Int_commute max.commute split: option.splits)

lemma size_sym: "score_size_similarity a b = score_size_similarity b a"
  by (auto simp: score_size_similarity_def Let_def log_ratio_sym split: option.splits)

lemma location_sym: "score_location_similarity a b = score_location_similarity b a"
  by (auto simp: score_location_similarity_def split: option.splits)

lemma legal_sym: "score_legal_structure_similarity a b = score_legal_structure_similarity b a"
  by (auto simp: score_legal_structure_similarity_def split: option.splits)

lemma growth_sym: "score_growth_similarity a b = score_growth_similarity b a"
  by (auto simp: score_growth_similarity_def Let_def abs_minus_commute split: option.splits)

lemma similarity_weighted_sum:
  "weighted_sum similarity_weights
     [(''industry'', a), (''size'', b), (''location'', c), (''legal_structure'', d), (''growth'', e)]
   = Some (a * 0.35 + (b * 0.25 + (c * 0.20 + (d * 0.10 + (e * 0.10)))))"
  by (simp add: similarity_weights_def)

lemma other_scores:
  "score_industry_similarity full_company other_company = 0.2"
  "score_location_similarity full_company other_company = 0.6"
  "score_legal_structure_similarity full_company other_company = 0.3"
  "score_growth_similarity full_company other_company = 0.6"
     apply (simp_all add: full_company_def other_company_def addr_main_def
      score_industry_similarity_def score_location_similarity_def
      score_legal_structure_similarity_def score_growth_similarity_def corp_types_def owner_operated_types_def)
  done







section \<open>Self-similarity\<close>

text \<open>
  C1. For a fully populated company \<open>A\<close> (industry, address, legal structure and
  financials present, the financials carrying employee count, estimated revenue and
  growth rate), each of the five sub-scores of \<open>A\<close> against itself is 1.0, and
  \<^verbatim>\<open>score_company_similarity(A, A)\<close>, the sum weighted 0.35/0.25/0.20/0.10/0.10,
  is exactly 1.0.
\<close>

theorem self_similarity_is_one:
  assumes "industry A = Some i" and "address A = Some ad" and "legal_structure A = Some ls"
    and "financials A = Some f" and "employee_count f = Some e"
    and "estimated_revenue f = Some rv" and "growth_rate f = Some g"
  shows "score_industry_similarity A A = 1.0 \<and>
         score_size_similarity A A = 1.0 \<and>
         score_location_similarity A A = 1.0 \<and>
         score_legal_structure_similarity A A = 1.0 \<and>
         score_growth_similarity A A = 1.0 \<and>
         score_company_similarity A A = Some 1.0"
proof -
  have ind: "score_industry_similarity A A = 1"
    using assms(1) by (simp add: score_industry_similarity_def)
  have size: "score_size_similarity A A = 1"
    using assms(4,5,6) by (simp add: score_size_similarity_def log_ratio_self)
  have loc: "score_location_similarity A A = 1"
    using assms(2) by (simp add: score_location_similarity_def)
  have legal: "score_legal_structure_similarity A A = 1"
    using assms(3) by (simp add: score_legal_structure_similarity_def)
  have growth: "score_growth_similarity A A = 1"
    using assms(4,7) by (simp add: score_growth_similarity_def)
  have "score_company_similarity A A = Some 1"
    by (simp add: score_company_similarity_def similarity_scores_def similarity_weighted_sum
        ind size loc legal growth del: weighted_sum.simps)
  with ind size loc legal growth show ?thesis by simp
qed

theorem self_similarity_is_one_witness:
  "industry full_company \<noteq> None \<and> address full_company \<noteq> None \<and>
   legal_structure full_company = Some LLC \<and>
   (\<exists>f. financials full_company = Some f \<and> employee_count f = Some 50 \<and>
        estimated_revenue f = Some 5000000 \<and> growth_rate f = Some 15) \<and>
   score_size_similarity full_company full_company = 1 \<and>
   score_company_similarity full_company full_company = Some 1"
  using self_similarity_is_one [of full_company
      "\<lparr>primary = ''Manufacturing'', naics_code = Some ''333'', sic_code = Some ''3500'',
        subcategories = []\<rparr>"
      addr_main LLC
      "\<lparr>employee_count = Some 50, estimated_revenue = Some 5000000, growth_rate = Some 15,
        capex_trends = None, payroll_trends = None\<rparr>" 50 5000000 15]
  by (simp add: full_company_def)

section \<open>Symmetry of the similarity score\<close>

text \<open>
  C2. For every pair of companies \<open>A\<close> and \<open>B\<close>, each of the five sub-scores
  (industry, size, location, legal structure, growth) gives the same value for
  \<open>(A, B)\<close> and \<open>(B, A)\<close>, and so does \<^verbatim>\<open>score_company_similarity\<close>.
\<close>

theorem similarity_symmetric:
  "score_industry_similarity A B = score_industry_similarity B A \<and>
   score_size_similarity A B = score_size_similarity B A \<and>
   score_location_similarity A B = score_location_similarity B A \<and>
   score_legal_structure_similarity A B = score_legal_structure_similarity B A \<and>
   score_growth_similarity A B = score_growth_similarity B A \<and>
   score_company_similarity A B = score_company_similarity B A"
  by (simp add: score_company_similarity_def similarity_scores_def
      industry_sym [of A B] size_sym [of A B] location_sym [of A B] legal_sym [of A B]
      growth_sym [of A B])

theorem similarity_symmetric_witness:
  "score_industry_similarity other_company full_company = 0.2 \<and>
   score_location_similarity other_company full_company = 0.6 \<and>
   score_legal_structure_similarity other_company full_company = 0.3 \<and>
   score_growth_similarity other_company full_company = 0.6 \<and>
   score_company_similarity full_company other_company =
     score_company_similarity other_company full_company"
  using similarity_symmetric [of full_company other_company]
  by (simp add: other_scores)

section \<open>Tax-saving potential thresholds\<close>



section \<open>Route optimizer: helper facts\<close>

lemma square_set_cell: "square n ds \<Longrightarrow> square n (set_cell ds i j v)"
proof -
  assume sq: "square n ds"
  show ?thesis
  proof (cases "i < length ds")
    case True
    have rows: "\<forall>k < length ds. length (ds ! k) = n"
      using sq by (simp add: square_def list_all_length)
    have "length ((ds[i := (ds ! i)[j := v]]) ! k) = n" if "k < length ds" for k
      using that True rows by (cases "k = i") simp_all
    then show ?thesis using sq by (simp add: square_def set_cell_def list_all_length)
  next
    case False
    then show ?thesis using sq by (simp add: set_cell_def list_update_beyond)
  qed
qed

lemma fold_preserves: "(\<And>x a. P a \<Longrightarrow> P (f x a)) \<Longrightarrow> P a \<Longrightarrow> P (fold f xs a)"
  by (induction xs arbitrary: a) auto

lemma square_replicate: "square n (replicate n (replicate n 0))"
  by (simp add: square_def list_all_length)

lemma square_distance_matrix:
  "square (length cs + 1) (calculate_distance_matrix cs start_location)"
proof -
  define n where "n = length cs + 1"
  have inner: "square n (fold (\<lambda>j ds'. set_cell (set_cell ds' i j (g i j)) j i (g i j)) js ds)"
    if "square n ds" for ds js i and g :: "nat \<Rightarrow> nat \<Rightarrow> real"
    using that
    by (rule fold_preserves [where P = "square n", rotated]) (simp add: square_set_cell)
  have outer: "square n (fold (\<lambda>i ds.
           fold (\<lambda>j ds'. set_cell (set_cell ds' i j (g i j)) j i (g i j)) (js i) ds) is ds0)"
    if "square n ds0" for ds0 "is" js and g :: "nat \<Rightarrow> nat \<Rightarrow> real"
    using that
    by (rule fold_preserves [where P = "square n", rotated]) (rule inner)
  have "square n (replicate n (replicate n 0))" by (rule square_replicate)
  then show ?thesis
    unfolding calculate_distance_matrix_def Let_def n_def [symmetric]
    using outer [of "replicate n (replicate n 0)"
        "\<lambda>i j. calculate_distance ((start_location # map ref_address cs) ! i)
                 ((start_location # map ref_address cs) ! j)" "\<lambda>i. [i + 1..<n]" "[0..<n]"]
    by (simp add: n_def)
qed

lemma dist_at_square: "square n ds \<Longrightarrow> i < n \<Longrightarrow> j < n \<Longrightarrow> dist_at ds i j \<noteq> None"
  by (simp add: dist_at_def square_def list_all_length)

lemma those_map_Some:
  "(\<And>x. x \<in> set xs \<Longrightarrow> f x \<noteq> None) \<Longrightarrow> those (map f xs) = Some (map (\<lambda>x. the (f x)) xs)"
  by (induction xs) (auto split: option.splits)

lemma closest_unvisited_Some:
  assumes "square n ds" and "current < n" and "\<forall>x \<in> set unvisited. x < n"
    and "unvisited \<noteq> []"
  shows "closest_unvisited ds current unvisited \<noteq> None"
proof -
  have "those (map (dist_at ds current) unvisited)
          = Some (map (\<lambda>x. the (dist_at ds current x)) unvisited)"
    using assms(1,2,3) by (intro those_map_Some) (simp add: dist_at_square)
  moreover obtain u us where "unvisited = u # us" using assms(4) by (cases unvisited) auto
  ultimately show ?thesis by (simp add: closest_unvisited_def)
qed

lemma tsp_loop_total:
  "square n ds \<Longrightarrow> current < n \<Longrightarrow> \<forall>x \<in> set unvisited. x < n \<Longrightarrow>
   \<exists>t. tsp_loop ds current unvisited tour = Some t \<and>
       mset t = mset tour + mset unvisited \<and>
       take (length tour) t = tour"
proof (induction ds current unvisited tour rule: tsp_loop.induct)
  case (1 distances current unvisited tour)
  show ?case
  proof (cases "unvisited = []")
    case True
    then show ?thesis by (simp add: tsp_loop.simps)
  next
    case False
    with "1.prems" obtain closest where c: "closest_unvisited distances current unvisited = Some closest"
      using closest_unvisited_Some [of n distances current unvisited] by auto
    then have mem: "closest \<in> set unvisited" by (rule closest_unvisited_mem)
    then have lt: "closest < n" using "1.prems"(3) by simp
    have sub: "\<forall>x \<in> set (remove1 closest unvisited). x < n"
      using "1.prems"(3) by (auto dest: notin_set_remove1)
    from "1.IH" [OF False c "1.prems"(1) lt sub] obtain t where
      t: "tsp_loop distances closest (remove1 closest unvisited) (tour @ [closest]) = Some t"
      and m: "mset t = mset (tour @ [closest]) + mset (remove1 closest unvisited)"
      and p: "take (length (tour @ [closest])) t = tour @ [closest]"
      by blast
    have "tsp_loop distances current unvisited tour = Some t"
      using False c t by (subst tsp_loop.simps) simp
    moreover have "mset t = mset tour + mset unvisited"
      using m mem by simp
    moreover have "take (length tour) t = tour"
    proof -
      have "take (length tour) (take (length (tour @ [closest])) t) = take (length tour) (tour @ [closest])"
        by (simp only: p)
      then show ?thesis by (simp add: min_def)
    qed
    ultimately show ?thesis by blast
  qed
qed

lemma solve_tsp_greedy_total:
  assumes "square n ds" and "0 < n"
  shows "\<exists>order. solve_tsp_greedy ds = Some order \<and> length order = n + 1 \<and>
           hd order = 0 \<and> last order = 0 \<and>
           mset (butlast (tl order)) = mset [1..<n] \<and> (\<forall>x \<in> set order. x < n)"
proof -
  have len: "length ds = n" using assms(1) by (simp add: square_def)
  from tsp_loop_total [OF assms(1) assms(2), of "[1..<n]" "[0]"] obtain t where
    t: "tsp_loop ds 0 [1..<n] [0] = Some t" and m: "mset t = mset [0] + mset [1..<n]"
    and p: "take (length [0::nat]) t = [0]"
    by auto
  from p obtain rest where r: "t = 0 # rest" by (cases t) auto
  with m have mr: "mset rest = mset [1..<n]" by simp
  then have "length rest = n - 1" by (metis size_mset length_upt)
  moreover have "\<forall>x \<in> set rest. x < n"
    using mr by (metis atLeastLessThan_iff set_mset_mset set_upt)
  ultimately show ?thesis using t r mr assms(2) len
    by (simp add: solve_tsp_greedy_def)
qed

lemma tour_distance_total:
  "square n ds \<Longrightarrow> \<forall>x \<in> set order. x < n \<Longrightarrow> tour_distance ds order \<noteq> None"
proof (induction ds order rule: tour_distance.induct)
  case (1 distances from_idx to_idx rest)
  then show ?case using dist_at_square [of n distances from_idx to_idx] by auto
qed simp_all

text \<open>The reference that \<^verbatim>\<open>add_company\<close> builds for a company with an address.\<close>

lemma fold_add_company:
  "fold (\<lambda>company r. add_company r company p) cs r0 =
     (if \<forall>c \<in> set cs. address c = None then r0
      else r0\<lparr>companies := companies r0 @
                 map (\<lambda>c. \<lparr>company_id = id_of c, ref_name = name c,
                            ref_address = format_address (the (address c)), priority = p\<rparr>)
                   (filter (\<lambda>c. address c \<noteq> None) cs),
              optimized_order :=
                 [0..<length (companies r0) + length (filter (\<lambda>c. address c \<noteq> None) cs)]\<rparr>)"
proof (induction cs arbitrary: r0)
  case Nil
  then show ?case by simp
next
  case (Cons c cs)
  show ?case
  proof (cases "address c")
    case None
    then show ?thesis using Cons.IH [of r0] by (simp add: add_company_def)
  next
    case (Some a)
    then show ?thesis using Cons.IH [of "add_company r0 c p"]
      by (simp add: add_company_def Let_def)
  qed
qed

lemma optimize_route_general:
  assumes "\<exists>c \<in> set cs. address c \<noteq> None"
  shows "\<exists>r. optimize_route cs s = Some r \<and>
           length (companies r) = length (filter (\<lambda>c. address c \<noteq> None) cs) \<and>
           length (optimized_order r) = length (companies r) + 2 \<and>
           hd (optimized_order r) = 0 \<and> last (optimized_order r) = 0 \<and>
           mset (butlast (tl (optimized_order r))) = mset [1..<length (companies r) + 1]"
proof -
  from assms have ne: "cs \<noteq> []" by auto
  define day0 where "day0 = (case location (hd cs) of
                      None \<Rightarrow> ''Monday''
                    | Some loc \<Rightarrow> if truthy_str (region loc) then the (region loc)
                                  else ''Monday'')"
  define route where "route = fold (\<lambda>company r. add_company r company 0) cs (new_route day0)"
  define k where "k = length (filter (\<lambda>c. address c \<noteq> None) cs)"
  have kpos: "0 < k" using assms unfolding k_def by (auto simp: filter_empty_conv)
  have comp: "length (companies route) = k"
    using assms unfolding route_def k_def by (auto simp: fold_add_company new_route_def)
  then have cne: "companies route \<noteq> []" using kpos by auto
  define ds where "ds = calculate_distance_matrix (companies route) s"
  have sq: "square (k + 1) ds" unfolding ds_def using square_distance_matrix [of "companies route" s] comp by simp
  from solve_tsp_greedy_total [OF sq] obtain order where
    o: "solve_tsp_greedy ds = Some order" "length order = k + 2" "hd order = 0" "last order = 0"
       "mset (butlast (tl order)) = mset [1..<k + 1]" "\<forall>x \<in> set order. x < k + 1"
    by auto
  from tour_distance_total [OF sq o(6)] obtain tot where tt: "tour_distance ds order = Some tot"
    by auto
  have "optimize_route cs s = Some (route\<lparr>optimized_order := order, total_distance := tot,
                                     estimated_travel_time := tot / 30\<rparr>)"
    using ne cne o(1) tt
    by (simp add: optimize_route_def Let_def day0_def [symmetric] route_def [symmetric] ds_def [symmetric])
  then show ?thesis using comp o k_def by simp
qed

section \<open>Length and shape of the optimized order\<close>

text \<open>
  C3 (as amended). For every non-empty company list in which every company has an address,
  \<^verbatim>\<open>optimize_route\<close> returns a route \<open>R\<close> that holds one reference per company,
  whose \<^verbatim>\<open>optimized_order\<close> has length \<open>len(R.companies) + 2\<close>, begins and ends
  with index 0 and visits each of the indices \<open>1, ..., len(companies)\<close> exactly once in
  between. For the empty list it returns a route whose \<^verbatim>\<open>companies\<close> and
  \<^verbatim>\<open>optimized_order\<close> are both empty.
\<close>

theorem optimize_route_order_length:
  "(cs \<noteq> [] \<and> (\<forall>c \<in> set cs. address c \<noteq> None) \<longrightarrow>
      (\<exists>r. optimize_route cs s = Some r \<and>
           length (companies r) = length cs \<and>
           length (optimized_order r) = length (companies r) + 2 \<and>
           hd (optimized_order r) = 0 \<and> last (optimized_order r) = 0 \<and>
           mset (butlast (tl (optimized_order r))) = mset [1..<length cs + 1])) \<and>
   (\<exists>r. optimize_route [] s = Some r \<and> companies r = [] \<and> optimized_order r = [])"
proof -
  have "\<exists>r. optimize_route [] s = Some r \<and> companies r = [] \<and> optimized_order r = []"
    by (simp add: optimize_route_def)
  moreover have "\<exists>r. optimize_route cs s = Some r \<and>
           length (companies r) = length cs \<and>
           length (optimized_order r) = length (companies r) + 2 \<and>
           hd (optimized_order r) = 0 \<and> last (optimized_order r) = 0 \<and>
           mset (butlast (tl (optimized_order r))) = mset [1..<length cs + 1]"
    if ne: "cs \<noteq> []" and all: "\<forall>c \<in> set cs. address c \<noteq> None"
  proof -
    from ne all have ex: "\<exists>c \<in> set cs. address c \<noteq> None" by (cases cs) simp_all
    have filt: "filter (\<lambda>c. address c \<noteq> None) cs = cs" using all by (simp add: filter_id_conv)
    from optimize_route_general [OF ex, of s] obtain r where r: "optimize_route cs s = Some r"
      "length (companies r) = length (filter (\<lambda>c. address c \<noteq> None) cs)"
      "length (optimized_order r) = length (companies r) + 2"
      "hd (optimized_order r) = 0" "last (optimized_order r) = 0"
      "mset (butlast (tl (optimized_order r))) = mset [1..<length (companies r) + 1]"
      by blast
    from r(2) have len: "length (companies r) = length cs" by (simp only: filt)
    from r(6) have "mset (butlast (tl (optimized_order r))) = mset [1..<length cs + 1]"
      by (simp only: len)
    with r(1,3,4,5) len show ?thesis by blast
  qed
  ultimately show ?thesis by blast
qed

text \<open>The route for two located companies, evaluated: order 0, 1, 2, 0 over three legs of
  10 miles, one hour at 30 miles per hour.\<close>

lemma two_company_route:
  "map_option optimized_order
     (optimize_route [milwaukee_company, waukesha_company] ''Milwaukee, WI'') = Some [0, 1, 2, 0]"
  "map_option total_distance
     (optimize_route [milwaukee_company, waukesha_company] ''Milwaukee, WI'') = Some 30"
  "map_option estimated_travel_time
     (optimize_route [milwaukee_company, waukesha_company] ''Milwaukee, WI'') = Some 1"
  by code_simp+

theorem optimize_route_order_length_witness:
  "[milwaukee_company, waukesha_company] \<noteq> [] \<and>
   address milwaukee_company \<noteq> None \<and> address waukesha_company \<noteq> None \<and>
   (\<exists>r. optimize_route [milwaukee_company, waukesha_company] ''Milwaukee, WI'' = Some r \<and>
        optimized_order r = [0, 1, 2, 0] \<and>
        length (companies r) = 2 \<and> length (optimized_order r) = 4 \<and>
        hd (optimized_order r) = 0 \<and> last (optimized_order r) = 0)"
proof -
  have a: "address milwaukee_company \<noteq> None" "address waukesha_company \<noteq> None"
    by (simp_all add: milwaukee_company_def waukesha_company_def bare_company_def)
  then have h: "[milwaukee_company, waukesha_company] \<noteq> [] \<and>
      (\<forall>c \<in> set [milwaukee_company, waukesha_company]. address c \<noteq> None)"
    by simp
  with optimize_route_order_length [of "[milwaukee_company, waukesha_company]" "''Milwaukee, WI''"]
  obtain r where r: "optimize_route [milwaukee_company, waukesha_company] ''Milwaukee, WI'' = Some r"
    "length (companies r) = length [milwaukee_company, waukesha_company]"
    "length (optimized_order r) = length (companies r) + 2"
    "hd (optimized_order r) = 0" "last (optimized_order r) = 0"
    by blast
  from r(2,3) have "length (companies r) = 2" "length (optimized_order r) = 4" by simp_all
  moreover from r(1) two_company_route(1) have "optimized_order r = [0, 1, 2, 0]" by simp
  ultimately show ?thesis using r(1,4,5) a by simp
qed

text \<open>
  The claim as stated includes the empty input, where every company (there is none) has an
  address: the early return gives an empty \<^verbatim>\<open>optimized_order\<close>, of length 0 and
  not \<open>0 + 2\<close>.
\<close>

theorem optimize_route_empty_counterexample:
  "optimize_route [] ''Milwaukee, WI'' = Some (new_route []) \<and>
   length (optimized_order (new_route [])) \<noteq> length (companies (new_route [])) + 2"
  by (simp add: optimize_route_def new_route_def)

section \<open>Empty and unlocated inputs\<close>

text \<open>
  C7. For the empty company list and for a list in which no company has an address,
  \<^verbatim>\<open>optimize_route\<close> raises nothing: it returns a route whose \<^verbatim>\<open>companies\<close>
  list is empty and whose \<^verbatim>\<open>total_distance\<close> and
  \<^verbatim>\<open>estimated_travel_time\<close> are 0.
\<close>

theorem optimize_route_empty_result:
  assumes "\<forall>c \<in> set cs. address c = None"
  shows "\<exists>r. optimize_route cs s = Some r \<and> companies r = [] \<and>
           total_distance r = 0 \<and> estimated_travel_time r = 0"
proof (cases "cs = []")
  case True
  then show ?thesis by (simp add: optimize_route_def)
next
  case False
  then show ?thesis using assms
    by (simp add: optimize_route_def Let_def fold_add_company new_route_def)
qed

theorem optimize_route_empty_result_witness:
  "address bare_company = None \<and>
   (\<exists>r. optimize_route [bare_company, bare_company] ''Milwaukee, WI'' = Some r \<and>
        companies r = [] \<and> total_distance r = 0 \<and> estimated_travel_time r = 0) \<and>
   (\<exists>r. optimize_route [] ''Milwaukee, WI'' = Some r \<and>
        companies r = [] \<and> total_distance r = 0 \<and> estimated_travel_time r = 0)"
  using optimize_route_empty_result [of "[bare_company, bare_company]" "''Milwaukee, WI''"]
    optimize_route_empty_result [of "[]" "''Milwaukee, WI''"]
  by (simp add: bare_company_def)

section \<open>Day assignment: helper facts\<close>

lemma append_to_day_eq:
  "d \<in> fst ` set days \<Longrightarrow> distinct (map fst days) \<Longrightarrow>
   append_to_day d c days = Some (map (\<lambda>(k, xs). (k, if k = d then xs @ [c] else xs)) days)"
proof (induction days)
  case Nil
  then show ?case by simp
next
  case (Cons p days)
  obtain k xs where p: "p = (k, xs)" by (cases p)
  show ?case
  proof (cases "k = d")
    case True
    then have "d \<notin> fst ` set days" using Cons.prems(2) p by auto
    then have "map (\<lambda>(k, xs). (k, if k = d then xs @ [c] else xs)) days = days"
      by (intro map_idI) (auto simp: image_iff split: prod.splits)
    then show ?thesis using True p by simp
  next
    case False
    then show ?thesis using Cons p by auto
  qed
qed

lemma first_matching_day_key:
  "first_matching_day schedule company_city = Some d \<Longrightarrow> d \<in> fst ` set schedule"
  by (induction schedule) (auto split: if_splits)

lemma assigned_day_key:
  "''Thursday'' \<in> fst ` set schedule \<Longrightarrow> assigned_day schedule c \<in> fst ` set schedule"
  by (auto simp: assigned_day_def dest: first_matching_day_key split: option.splits)

lemma assign_loop_eq:
  assumes "''Thursday'' \<in> fst ` set schedule"
  shows "map fst days = map fst schedule \<Longrightarrow> distinct (map fst days) \<Longrightarrow>
   assign_loop schedule cs days =
     Some (map (\<lambda>(k, xs). (k, xs @ filter (\<lambda>c. has_city c \<and> assigned_day schedule c = k) cs)) days)"
proof (induction cs arbitrary: days)
  case Nil
  then show ?case by (simp add: case_prod_unfold)
next
  case (Cons c cs)
  show ?case
  proof (cases "has_city c")
    case False
    then show ?thesis using Cons by simp
  next
    case True
    let ?d = "assigned_day schedule c"
    let ?days' = "map (\<lambda>(k, xs). (k, if k = ?d then xs @ [c] else xs)) days"
    have key: "?d \<in> fst ` set days"
      using assigned_day_key [OF assms, of c] Cons.prems(1) by (metis list.set_map)
    have app: "append_to_day ?d c days = Some ?days'"
      using key Cons.prems(2) by (rule append_to_day_eq)
    have step: "assign_loop schedule (c # cs) days = assign_loop schedule cs ?days'"
    proof (cases "first_matching_day schedule (lower (city (the (address c))))")
      case None
      then have "?d = ''Thursday''" by (simp add: assigned_day_def)
      with app have "append_to_day ''Thursday'' c days = Some ?days'" by simp
      with None True show ?thesis by (simp add: Let_def)
    next
      case (Some d)
      then have "?d = d" by (simp add: assigned_day_def)
      with app have "append_to_day d c days = Some ?days'" by simp
      with Some True show ?thesis by (simp add: Let_def)
    qed
    have fst': "map fst ?days' = map fst days" by (simp add: case_prod_unfold comp_def)
    have p1: "map fst ?days' = map fst schedule" using fst' Cons.prems(1) by (simp only:)
    have p2: "distinct (map fst ?days')" using fst' Cons.prems(2) by (simp only:)
    have "assign_loop schedule cs ?days' =
      Some (map (\<lambda>(k, xs). (k, xs @ filter (\<lambda>c. has_city c \<and> assigned_day schedule c = k) cs)) ?days')"
      using p1 p2 by (rule Cons.IH)
    then show ?thesis using True unfolding step
      by (auto simp: case_prod_unfold)
  qed
qed

lemma assign_companies_to_days_eq:
  "assign_companies_to_days cfg cs =
     Some (map (\<lambda>d. (d, filter (\<lambda>c. has_city c \<and> assigned_day (get_location_schedule cfg) c = d) cs))
            [''Monday'', ''Tuesday'', ''Wednesday'', ''Thursday'', ''Friday''])"
  unfolding assign_companies_to_days_def Let_def
  by (subst assign_loop_eq) (simp_all add: get_location_schedule_def)


lemma occurrences_days:
  "occurrences (map (\<lambda>d. (d, filter (\<lambda>c. P c \<and> f c = d) cs)) ds) x =
     (if P x then count_list ds (f x) * count_list cs x else 0)"
proof -
  have one: "count_list (filter (\<lambda>c. P c \<and> f c = d) cs) x =
               (if P x \<and> f x = d then count_list cs x else 0)" for d
    by (induction cs) auto
  show ?thesis unfolding occurrences_def
    by (induction ds) (auto simp: one)
qed

lemma assigned_day_cases:
  "assigned_day (get_location_schedule cfg) c \<in>
     set [''Monday'', ''Tuesday'', ''Wednesday'', ''Thursday'', ''Friday'']"
  using assigned_day_key [of "get_location_schedule cfg" c]
  by (simp add: get_location_schedule_def)

lemma count_week_days:
  "d \<in> set [''Monday'', ''Tuesday'', ''Wednesday'', ''Thursday'', ''Friday''] \<Longrightarrow>
   count_list [''Monday'', ''Tuesday'', ''Wednesday'', ''Thursday'', ''Friday''] d = 1"
  by auto

section \<open>Day assignment partitions the companies that have a city\<close>

text \<open>
  C4 (as amended). For every configuration and every input list,
  \<^verbatim>\<open>assign_companies_to_days\<close> returns the five day buckets Monday to Friday. Every
  company that has an address with a non-empty city appears in the buckets exactly as often
  as in the input (an input company listed once is in exactly one day's list), and one that
  matches no day's region names (case-insensitive containment in either direction between
  its city and a region name) is in the Thursday bucket. A company without an address, or
  with an empty city, is skipped and appears in no bucket.
\<close>

theorem assign_companies_to_days_partition:
  "\<exists>days. assign_companies_to_days cfg cs = Some days \<and>
     map fst days = [''Monday'', ''Tuesday'', ''Wednesday'', ''Thursday'', ''Friday''] \<and>
     (\<forall>c. has_city c \<longrightarrow> occurrences days c = count_list cs c) \<and>
     (\<forall>c. \<not> has_city c \<longrightarrow> occurrences days c = 0) \<and>
     (\<forall>c \<in> set cs. has_city c \<and>
          first_matching_day (get_location_schedule cfg) (lower (city (the (address c)))) = None
          \<longrightarrow> (\<exists>thursday. map_of days ''Thursday'' = Some thursday \<and> c \<in> set thursday))"
proof -
  let ?week = "[''Monday'', ''Tuesday'', ''Wednesday'', ''Thursday'', ''Friday'']"
  let ?sel = "\<lambda>d. filter (\<lambda>c. has_city c \<and> assigned_day (get_location_schedule cfg) c = d) cs"
  let ?days = "map (\<lambda>d. (d, ?sel d)) ?week"
  have eq: "assign_companies_to_days cfg cs = Some ?days"
    by (rule assign_companies_to_days_eq)
  have keys: "map fst ?days = ?week" by simp
  have occ: "occurrences ?days c = (if has_city c then count_list cs c else 0)" for c
    unfolding occurrences_days
    using count_week_days [OF assigned_day_cases [of cfg c]] by simp
  have thu: "map_of ?days ''Thursday'' = Some (?sel ''Thursday'')" by simp
  have a: "\<forall>c. has_city c \<longrightarrow> occurrences ?days c = count_list cs c"
  proof (intro allI impI)
    fix c assume hc: "has_city c"
    show "occurrences ?days c = count_list cs c" by (simp only: occ if_P [OF hc])
  qed
  have b: "\<forall>c. \<not> has_city c \<longrightarrow> occurrences ?days c = 0"
  proof (intro allI impI)
    fix c assume hc: "\<not> has_city c"
    show "occurrences ?days c = 0" by (simp only: occ if_not_P [OF hc])
  qed
  have mem: "c \<in> set (?sel ''Thursday'')"
    if "c \<in> set cs" "has_city c"
      "first_matching_day (get_location_schedule cfg) (lower (city (the (address c)))) = None"
    for c
    using that by (simp add: assigned_day_def)
  have t: "\<forall>c \<in> set cs. has_city c \<and>
          first_matching_day (get_location_schedule cfg) (lower (city (the (address c)))) = None
          \<longrightarrow> (\<exists>thursday. map_of ?days ''Thursday'' = Some thursday \<and> c \<in> set thursday)"
    using thu mem by blast
  from eq keys a b t show ?thesis
    by - (rule exI [of _ ?days], intro conjI, assumption+)
qed


text \<open>The default schedule on five companies, evaluated (company ids per day): Milwaukee
  is contained in the Monday region West Milwaukee, Chicago matches nothing and goes to
  Thursday, the company without an address is dropped.\<close>

lemma default_schedule_example:
  "map_option (map (\<lambda>(d, cs). (d, map id_of cs)))
     (assign_companies_to_days default_config
        [milwaukee_company, waukesha_company, chicago_company, bare_company, madison_company]) =
   Some [(''Monday'', [''company1'', ''company2'']), (''Tuesday'', []),
         (''Wednesday'', [''company4'']), (''Thursday'', [''company5'']), (''Friday'', [])]"
  by code_simp

lemma chicago_unmatched:
  "first_matching_day (get_location_schedule default_config)
     (lower (city (the (address chicago_company)))) = None"
  by code_simp

lemma example_has_city:
  "has_city chicago_company" "has_city milwaukee_company" "\<not> has_city bare_company"
  by (simp_all add: has_city_def chicago_company_def milwaukee_company_def bare_company_def
      addr_main_def)

lemma example_counts:
  "count_list [milwaukee_company, chicago_company, bare_company] chicago_company = 1"
  "count_list [milwaukee_company, chicago_company, bare_company] milwaukee_company = 1"
  by (simp_all add: chicago_company_def milwaukee_company_def bare_company_def)

theorem assign_companies_to_days_partition_witness:
  "has_city chicago_company \<and> has_city milwaukee_company \<and> \<not> has_city bare_company \<and>
   first_matching_day (get_location_schedule default_config)
     (lower (city (the (address chicago_company)))) = None \<and>
   (\<exists>days. assign_companies_to_days default_config
              [milwaukee_company, chicago_company, bare_company] = Some days \<and>
      occurrences days chicago_company = 1 \<and>
      occurrences days milwaukee_company = 1 \<and>
      occurrences days bare_company = 0 \<and>
      (\<exists>thursday. map_of days ''Thursday'' = Some thursday \<and> chicago_company \<in> set thursday))"
proof -
  let ?cs = "[milwaukee_company, chicago_company, bare_company]"
  from assign_companies_to_days_partition [of default_config ?cs] obtain days where
    d: "assign_companies_to_days default_config ?cs = Some days"
    and occ: "\<forall>c. has_city c \<longrightarrow> occurrences days c = count_list ?cs c"
    and none: "\<forall>c. \<not> has_city c \<longrightarrow> occurrences days c = 0"
    and thu: "\<forall>c \<in> set ?cs. has_city c \<and>
          first_matching_day (get_location_schedule default_config)
            (lower (city (the (address c)))) = None
          \<longrightarrow> (\<exists>thursday. map_of days ''Thursday'' = Some thursday \<and> c \<in> set thursday)"
    by blast
  have "occurrences days chicago_company = 1" "occurrences days milwaukee_company = 1"
    using occ example_has_city(1,2) example_counts by auto
  moreover have "occurrences days bare_company = 0" using none example_has_city(3) by blast
  moreover have "\<exists>thursday. map_of days ''Thursday'' = Some thursday \<and> chicago_company \<in> set thursday"
    using thu example_has_city(1) chicago_unmatched by simp
  ultimately show ?thesis using d example_has_city chicago_unmatched by blast
qed

text \<open>
  The claim as stated says every input company appears in exactly one day's list. A company
  without an address is skipped by the loop and appears in none.
\<close>

theorem assign_companies_to_days_counterexample:
  "assign_companies_to_days default_config [bare_company] =
     Some [(''Monday'', []), (''Tuesday'', []), (''Wednesday'', []), (''Thursday'', []),
           (''Friday'', [])] \<and>
   occurrences [(''Monday'', []), (''Tuesday'', []), (''Wednesday'', []), (''Thursday'', []),
                (''Friday'', [])] bare_company = 0"
  by (simp add: assign_companies_to_days_def get_location_schedule_def has_city_def
      bare_company_def occurrences_def)

section \<open>Outreach-day suggestion\<close>

text \<open>
  C6 (as amended). \<^verbatim>\<open>suggest_best_outreach_days\<close> returns the caller's
  \<^verbatim>\<open>historical_data\<close> unchanged whenever it is a non-empty dictionary; when it
  is not provided (\<^verbatim>\<open>None\<close>) or is the empty dictionary, it returns the fixed
  table Monday 0.7, Tuesday 0.9, Wednesday 0.8, Thursday 0.7, Friday 0.5. The companies
  argument never influences the result.
\<close>

theorem suggest_best_outreach_days_result:
  "(h \<noteq> [] \<longrightarrow> suggest_best_outreach_days cs (Some h) = h) \<and>
   suggest_best_outreach_days cs (Some []) =
     [(''Monday'', 0.7), (''Tuesday'', 0.9), (''Wednesday'', 0.8), (''Thursday'', 0.7),
      (''Friday'', 0.5)] \<and>
   suggest_best_outreach_days cs None =
     [(''Monday'', 0.7), (''Tuesday'', 0.9), (''Wednesday'', 0.8), (''Thursday'', 0.7),
      (''Friday'', 0.5)]"
  by (simp add: suggest_best_outreach_days_def default_rates_def)

theorem suggest_best_outreach_days_result_witness:
  "[(''Monday'', 0.25::real)] \<noteq> [] \<and>
   suggest_best_outreach_days [milwaukee_company] (Some [(''Monday'', 0.25)]) =
     [(''Monday'', 0.25)] \<and>
   suggest_best_outreach_days [] (Some [(''Monday'', 0.25)]) = [(''Monday'', 0.25)]"
  using suggest_best_outreach_days_result [of "[(''Monday'', 0.25)]" "[milwaukee_company]"]
    suggest_best_outreach_days_result [of "[(''Monday'', 0.25)]" "[]"]
  by simp

text \<open>
  The claim as stated returns every provided dictionary verbatim. The empty dictionary is
  provided and yet the default table, which is not empty, comes back.
\<close>

theorem suggest_best_outreach_days_counterexample:
  "suggest_best_outreach_days [milwaukee_company] (Some []) \<noteq> []"
  by (simp add: suggest_best_outreach_days_def default_rates_def)

section \<open>Clustering: helper facts\<close>

lemma occurrences_add_to_cluster:
  "occurrences (add_to_cluster r c clusters) x = occurrences clusters x + count_list [c] x"
  by (induction clusters) (auto simp: occurrences_def)

lemma keys_add_to_cluster:
  "fst ` set (add_to_cluster r c clusters) = insert r (fst ` set clusters)"
  by (induction r c clusters rule: add_to_cluster.induct) (auto simp: image_iff)

lemma distinct_add_to_cluster:
  "distinct (map fst clusters) \<Longrightarrow> distinct (map fst (add_to_cluster r c clusters))"
proof (induction clusters)
  case Nil
  then show ?case by simp
next
  case (Cons p clusters)
  obtain k xs where p: "p = (k, xs)" by (cases p)
  show ?case
  proof (cases "k = r")
    case True
    then show ?thesis using Cons.prems p by simp
  next
    case False
    have "k \<notin> fst ` set (add_to_cluster r c clusters)"
      using False Cons.prems p by (simp add: keys_add_to_cluster)
    then show ?thesis using False Cons p by simp
  qed
qed

lemma cluster_loop_total:
  "i + length labels = length cwl \<Longrightarrow> distinct (map fst clusters) \<Longrightarrow>
   \<exists>result. cluster_loop cwl i labels clusters = Some result \<and>
      distinct (map fst result) \<and>
      (\<forall>x. occurrences result x = occurrences clusters x + count_list (drop i cwl) x)"
proof (induction labels arbitrary: i clusters)
  case Nil
  then show ?case by simp
next
  case (Cons label labels)
  then have lt: "i < length cwl" by simp
  let ?cl = "add_to_cluster (region_of_label label) (cwl ! i) clusters"
  have "Suc i + length labels = length cwl" using Cons.prems(1) by simp
  moreover have "distinct (map fst ?cl)" using Cons.prems(2) by (rule distinct_add_to_cluster)
  ultimately obtain result where r: "cluster_loop cwl (Suc i) labels ?cl = Some result"
    "distinct (map fst result)"
    "\<forall>x. occurrences result x = occurrences ?cl x + count_list (drop (Suc i) cwl) x"
    using Cons.IH [of "Suc i" ?cl] by blast
  have d: "drop i cwl = cwl ! i # drop (Suc i) cwl" using lt by (simp add: Cons_nth_drop_Suc)
  have "\<forall>x. occurrences result x = occurrences clusters x + count_list (drop i cwl) x"
    using r(3) by (simp add: occurrences_add_to_cluster d)
  then show ?case using r(1,2) lt by simp
qed

lemma count_list_filter:
  "count_list (filter P xs) x = (if P x then count_list xs x else 0)"
  by (induction xs) auto

section \<open>Clustering keeps exactly the companies with coordinates\<close>

text \<open>
  C9. Provided the clustering returns one label per coordinate row,
  \<^verbatim>\<open>cluster_companies_by_region\<close> returns a dictionary (distinct region keys) in
  which a company whose location is missing, or whose latitude or longitude is 0.0,
  appears in no bucket, and every other company (location present, both coordinates
  non-zero) appears in the buckets exactly as often as in the input: an input company
  listed once is in exactly one bucket.
\<close>

theorem cluster_companies_by_region_buckets:
  assumes "length (dbscan 0.05 2 (cluster_coordinates cs)) = length (cluster_coordinates cs)"
  shows "\<exists>clusters. cluster_companies_by_region dbscan cs = Some clusters \<and>
           distinct (map fst clusters) \<and>
           (\<forall>c. location c = None \<or>
                (\<exists>loc. location c = Some loc \<and> (latitude loc = 0 \<or> longitude loc = 0))
                \<longrightarrow> occurrences clusters c = 0) \<and>
           (\<forall>c loc. location c = Some loc \<and> latitude loc \<noteq> 0 \<and> longitude loc \<noteq> 0
                \<longrightarrow> occurrences clusters c = count_list cs c)"
proof -
  let ?cwl = "filter has_valid_location cs"
  have "\<exists>clusters. cluster_companies_by_region dbscan cs = Some clusters \<and>
           distinct (map fst clusters) \<and>
           (\<forall>x. occurrences clusters x = count_list ?cwl x)"
  proof (cases "?cwl = []")
    case True
    then show ?thesis by (simp add: cluster_companies_by_region_def occurrences_def)
  next
    case False
    let ?labels = "dbscan 0.05 2 (cluster_coordinates cs)"
    have "0 + length ?labels = length ?cwl" using assms by (simp add: cluster_coordinates_def)
    from cluster_loop_total [OF this, of "[]"] obtain result where
      "cluster_loop ?cwl 0 ?labels [] = Some result" "distinct (map fst result)"
      "\<forall>x. occurrences result x = count_list ?cwl x"
      by (auto simp: occurrences_def)
    then show ?thesis using False
      by (simp add: cluster_companies_by_region_def Let_def cluster_coordinates_def)
  qed
  then obtain clusters where c: "cluster_companies_by_region dbscan cs = Some clusters"
    "distinct (map fst clusters)"
    and occ: "\<And>x. occurrences clusters x = (if has_valid_location x then count_list cs x else 0)"
    by (auto simp: count_list_filter)
  have "occurrences clusters x = 0"
    if "location x = None \<or> (\<exists>loc. location x = Some loc \<and> (latitude loc = 0 \<or> longitude loc = 0))"
    for x
    using that by (auto simp: occ has_valid_location_def)
  moreover have "occurrences clusters x = count_list cs x"
    if "location x = Some loc \<and> latitude loc \<noteq> 0 \<and> longitude loc \<noteq> 0" for x loc
    using that by (simp add: occ has_valid_location_def)
  ultimately show ?thesis using c by blast
qed


lemma example_labels:
  "length (example_dbscan 0.05 2 (cluster_coordinates cs)) = length (cluster_coordinates cs)"
  by (simp add: example_dbscan_def)

theorem cluster_companies_by_region_buckets_witness:
  "length (example_dbscan 0.05 2
       (cluster_coordinates [located 43 (- 87) milwaukee_company,
          located 0 (- 88) chicago_company, bare_company])) =
     length (cluster_coordinates [located 43 (- 87) milwaukee_company,
          located 0 (- 88) chicago_company, bare_company]) \<and>
   (\<exists>clusters. cluster_companies_by_region example_dbscan
        [located 43 (- 87) milwaukee_company, located 0 (- 88) chicago_company,
         bare_company] = Some clusters \<and>
      occurrences clusters bare_company = 0 \<and>
      occurrences clusters (located 0 (- 88) chicago_company) = 0 \<and>
      occurrences clusters (located 43 (- 87) milwaukee_company) = 1)"
proof -
  let ?cs = "[located 43 (- 87) milwaukee_company, located 0 (- 88) chicago_company,
              bare_company]"
  have len: "length (example_dbscan 0.05 2 (cluster_coordinates ?cs)) =
      length (cluster_coordinates ?cs)"
    by (rule example_labels)
  from cluster_companies_by_region_buckets [of example_dbscan ?cs, OF len] obtain clusters where
    c: "cluster_companies_by_region example_dbscan ?cs = Some clusters"
    and none: "\<forall>c. location c = None \<or>
                (\<exists>loc. location c = Some loc \<and> (latitude loc = 0 \<or> longitude loc = 0))
                \<longrightarrow> occurrences clusters c = 0"
    and one: "\<forall>c loc. location c = Some loc \<and> latitude loc \<noteq> 0 \<and> longitude loc \<noteq> 0
                \<longrightarrow> occurrences clusters c = count_list ?cs c"
    by blast
  have "occurrences clusters bare_company = 0"
    using none by (simp add: bare_company_def)
  moreover have "occurrences clusters (located 0 (- 88) chicago_company) = 0"
    using none by (simp add: located_def)
  moreover have "occurrences clusters (located 43 (- 87) milwaukee_company) =
      count_list ?cs (located 43 (- 87) milwaukee_company)"
    using one by (simp add: located_def)
  moreover have "count_list ?cs (located 43 (- 87) milwaukee_company) = 1"
    by (simp add: located_def milwaukee_company_def chicago_company_def bare_company_def)
  ultimately show ?thesis using c len by simp
qed

section \<open>Normalizer: helper facts\<close>

lemma count_examples:
  "count_from_range ''10-50'' = Some 30"
  "count_from_range ''1,000+'' = None"
  "count_from_plus ''1,000+'' = Some 1000"
  by code_simp+

lemma decimal_examples:
  "parse_decimal ''1'' = Some (1, 0)"
  "parse_decimal ''5'' = Some (5, 0)"
  "parse_decimal ''750'' = Some (750, 0)"
  by code_simp+

lemma string_examples:
  "remove_char CHR '','' (remove_char CHR ''$'' ''$1M-$5M'') = ''1M-5M''"
  "remove_char CHR '','' (remove_char CHR ''$'' ''$750K'') = ''750K''"
  "split_on CHR ''-'' ''1M-5M'' = [''1M'', ''5M'']"
  "upper (py_strip (py_strip ''1M'')) = ''1M''"
  "upper (py_strip (py_strip ''5M'')) = ''5M''"
  "upper (py_strip ''750K'') = ''750K''"
  by code_simp+


lemma float_examples:
  "py_float ''1'' = Some 1" "py_float ''5'' = Some 5" "py_float ''750'' = Some 750"
  by (simp_all add: py_float_def decimal_examples)

lemma suffix_examples:
  "parse_revenue_with_suffix (py_strip ''1M'') = Some 1000000"
  "parse_revenue_with_suffix (py_strip ''5M'') = Some 5000000"
  "parse_revenue_with_suffix ''750K'' = Some 750000"
  by (simp_all add: parse_revenue_with_suffix_def string_examples ends_with_def float_examples)

lemma revenue_range_examples:
  "revenue_from_range ''1M-5M'' = Some 3000000"
  "revenue_from_range ''750K'' = None"
  by (simp_all add: revenue_from_range_def string_examples suffix_examples)

section \<open>Normalizer examples\<close>

text \<open>
  C8. The normalizers give \<^verbatim>\<open>normalize_employee_count("10-50") = 30\<close> (the
  floor-division average of the range), \<^verbatim>\<open>normalize_employee_count("1,000+") = 1000\<close>
  (commas and the trailing plus removed), \<^verbatim>\<open>normalize_revenue("$1M-$5M") = 3000000.0\<close>
  (both ends parsed with their M suffix, then averaged) and
  \<^verbatim>\<open>normalize_revenue("$750K") = 750000.0\<close> (currency sign stripped, K multiplies by
  1000).
\<close>

theorem normalizer_examples:
  "normalize_employee_count (CountStr ''10-50'') = Some 30 \<and>
   normalize_employee_count (CountStr ''1,000+'') = Some 1000 \<and>
   normalize_revenue (RevenueStr ''$1M-$5M'') = Some 3000000 \<and>
   normalize_revenue (RevenueStr ''$750K'') = Some 750000"
  by (simp add: normalize_employee_count_def count_examples normalize_revenue_def
      string_examples revenue_range_examples suffix_examples)

theorem normalizer_examples_witness:
  "normalize_employee_count (CountStr ''10-50'') = Some ((10 + 50) div 2) \<and>
   normalize_revenue (RevenueStr ''$1M-$5M'') = Some ((1 * 1000000 + 5 * 1000000) / 2)"
  using normalizer_examples by simp

end
